theory Spec2Isabelle
  imports Main "HOL-Library.AList"
begin

section \<open>Python values, dictionaries and exceptions\<close>

text \<open>
  The pages of \<^verbatim>\<open>app.py\<close> pass dictionaries of dynamically typed values between the
  services. A dictionary is an association list: Python dictionaries keep insertion order,
  and \<^verbatim>\<open>d[k] = v\<close> replaces the entry in place or appends it, which is
  \<^const>\<open>AList.update\<close>. Strings are byte strings in UTF-8.
\<close>

datatype pyval = PNone | PBool bool | PInt int | PStr string

type_synonym pydict = "(string \<times> pyval) list"

text \<open>
  What a call can raise. The first four are classes below \<^verbatim>\<open>Exception\<close>: \<^verbatim>\<open>KeyError\<close>
  carries the missing key, \<^verbatim>\<open>OtherException\<close> stands for every other class below
  \<^verbatim>\<open>Exception\<close> and carries the text that \<^verbatim>\<open>str\<close> gives. The last three are below
  \<^verbatim>\<open>BaseException\<close> only: \<^verbatim>\<open>KeyboardInterrupt\<close>, \<^verbatim>\<open>SystemExit\<close> with its text, and
  \<^verbatim>\<open>OtherBaseException\<close> for the rest.
\<close>

datatype exn =
    ValueError string
  | KeyError string
  | DuplicateKey string
  | OtherException string
  | KeyboardInterrupt
  | SystemExit string
  | OtherBaseException string

text \<open>
  \<^verbatim>\<open>isinstance(e, Exception)\<close>: what a handler \<^verbatim>\<open>except Exception\<close> catches.
\<close>

fun is_exception :: "exn \<Rightarrow> bool" where
  "is_exception (ValueError m) = True"
| "is_exception (KeyError k) = True"
| "is_exception (DuplicateKey m) = True"
| "is_exception (OtherException m) = True"
| "is_exception KeyboardInterrupt = False"
| "is_exception (SystemExit m) = False"
| "is_exception (OtherBaseException m) = False"

text \<open>Truth value testing, as \<^verbatim>\<open>if x:\<close> does it.\<close>

fun truthy :: "pyval \<Rightarrow> bool" where
  "truthy PNone = False"
| "truthy (PBool b) = b"
| "truthy (PInt i) = (i \<noteq> 0)"
| "truthy (PStr s) = (s \<noteq> [])"

text \<open>\<^verbatim>\<open>if d:\<close> for a value that is a dictionary or \<^verbatim>\<open>None\<close>.\<close>

fun truthy_dict :: "pydict option \<Rightarrow> bool" where
  "truthy_dict None = False"
| "truthy_dict (Some d) = (d \<noteq> [])"

text \<open>\<^verbatim>\<open>d[k]\<close>: a missing key raises \<^verbatim>\<open>KeyError\<close>.\<close>

definition getitem :: "pydict \<Rightarrow> string \<Rightarrow> exn + pyval" where
  "getitem d k = (case map_of d k of None \<Rightarrow> Inl (KeyError k) | Some v \<Rightarrow> Inr v)"

text \<open>\<^verbatim>\<open>str(x)\<close>, as the f-strings of the pages apply it.\<close>

definition digit_char :: "nat \<Rightarrow> char" where
  "digit_char d = char_of (48 + d)"

fun str_nat :: "nat \<Rightarrow> string" where
  "str_nat n = (if n < 10 then [digit_char n] else str_nat (n div 10) @ [digit_char (n mod 10)])"

declare str_nat.simps [simp del]

definition str_int :: "int \<Rightarrow> string" where
  "str_int i = (if i < 0 then CHR ''-'' # str_nat (nat (- i)) else str_nat (nat i))"

fun py_str :: "pyval \<Rightarrow> string" where
  "py_str PNone = ''None''"
| "py_str (PBool b) = (if b then ''True'' else ''False'')"
| "py_str (PInt i) = str_int i"
| "py_str (PStr s) = s"

text \<open>
  \<^verbatim>\<open>repr(s)\<close> of a string. The quote is the single quote, unless the string holds a single
  quote and no double quote. The quote and the backslash are escaped with a backslash, tab,
  line feed and carriage return are written \<^verbatim>\<open>\t\<close>, \<^verbatim>\<open>\n\<close>, \<^verbatim>\<open>\r\<close>, and every other
  control character of ASCII as \<^verbatim>\<open>\x\<close> with two hexadecimal digits. A byte above 0x7F is part
  of a character outside ASCII and is copied, as \<^verbatim>\<open>repr\<close> copies the printable ones; the keys
  that the pages subscript with are ASCII.
\<close>

definition hex_char :: "nat \<Rightarrow> char" where
  "hex_char n = (if n < 10 then char_of (48 + n) else char_of (87 + n))"

definition repr_quote :: "string \<Rightarrow> char" where
  "repr_quote s = (if CHR 0x27 \<in> set s \<and> CHR 0x22 \<notin> set s then CHR 0x22 else CHR 0x27)"

definition repr_char :: "char \<Rightarrow> char \<Rightarrow> string" where
  "repr_char quote c =
     (if c = quote \<or> c = CHR 0x5C then [CHR 0x5C, c]
      else if c = CHR 0x09 then [CHR 0x5C, CHR ''t'']
      else if c = CHR 0x0A then [CHR 0x5C, CHR ''n'']
      else if c = CHR 0x0D then [CHR 0x5C, CHR ''r'']
      else if (of_char c :: nat) < 32 \<or> (of_char c :: nat) = 127 then
        [CHR 0x5C, CHR ''x'', hex_char ((of_char c :: nat) div 16),
         hex_char ((of_char c :: nat) mod 16)]
      else [c])"

definition py_repr :: "string \<Rightarrow> string" where
  "py_repr s = [repr_quote s] @ concat (map (repr_char (repr_quote s)) s) @ [repr_quote s]"

text \<open>
  \<^verbatim>\<open>str(e)\<close>, as the f-strings of the handlers apply it: the text the exception was made
  with, and for a \<^verbatim>\<open>KeyError\<close> the \<^verbatim>\<open>repr\<close> of the key.
\<close>

fun exn_str :: "exn \<Rightarrow> string" where
  "exn_str (ValueError m) = m"
| "exn_str (KeyError k) = py_repr k"
| "exn_str (DuplicateKey m) = m"
| "exn_str (OtherException m) = m"
| "exn_str KeyboardInterrupt = []"
| "exn_str (SystemExit m) = m"
| "exn_str (OtherBaseException m) = m"

section \<open>The user interface and the services\<close>

text \<open>
  Streamlit calls are recorded as events in the order the page makes them, and are taken to
  return normally. The widgets that return user input (\<^verbatim>\<open>st.file_uploader\<close>,
  \<^verbatim>\<open>st.button\<close>, \<^verbatim>\<open>st.text_area\<close>) take their value from a parameter of the page.
\<close>

record upfile =
  name :: string
  getvalue :: string

datatype ui_event =
    StTitle string
  | StSubheader string
  | StMarkdown string
  | StFileUploader string "string list"
  | StTextArea string
  | StButton string
  | StImage upfile string
  | StSpinner string
  | StWrite string
  | StWriteDict pydict
  | StDataframe "pydict list"
  | StDownloadButton string "pydict list" string string
  | StError string
  | StInfo string
  | StSuccess string

text \<open>Every call of a service method is recorded with its arguments.\<close>

datatype call =
    UploadBlob string string
  | DetectCardInfo pyval
  | ValidateCardInfo pydict
  | GetCardByNumber pyval
  | InsertCard pydict
  | GetAllCards
  | ExecuteCustomQuery string

record 'db world =
  ui :: "ui_event list"
  calls :: "call list"
  db :: 'db

text \<open>
  The three global service objects of \<^verbatim>\<open>app.py\<close> are imported from modules that are not
  part of the sources; their methods are parameters. A method returns its value or raises;
  the methods of \<^verbatim>\<open>DATABASE_SERVICE\<close> also read and change the database.
  \<^verbatim>\<open>now_isoformat\<close> is \<^verbatim>\<open>datetime.datetime.now().isoformat()\<close>.
\<close>

record 'db services =
  upload_blob :: "string \<Rightarrow> string \<Rightarrow> exn + pyval"
  detect_credit_card_info_from_url :: "pyval \<Rightarrow> exn + pydict option"
  validate_card_info :: "pydict \<Rightarrow> exn + pydict"
  get_card_by_number :: "pyval \<Rightarrow> 'db \<Rightarrow> (exn + pydict option) \<times> 'db"
  insert_card :: "pydict \<Rightarrow> 'db \<Rightarrow> (exn + pyval) \<times> 'db"
  get_all_cards :: "'db \<Rightarrow> (exn + pydict list) \<times> 'db"
  execute_custom_query :: "string \<Rightarrow> 'db \<Rightarrow> (exn + pydict list) \<times> 'db"
  now_isoformat :: string

definition emit :: "ui_event \<Rightarrow> 'db world \<Rightarrow> 'db world" where
  "emit e w = w\<lparr>ui := ui w @ [e]\<rparr>"

definition record_call :: "call \<Rightarrow> 'db world \<Rightarrow> 'db world" where
  "record_call c w = w\<lparr>calls := calls w @ [c]\<rparr>"

section \<open>process_card_analysis\<close>

text \<open>The body of the \<^verbatim>\<open>try\<close> block, lines 60 to 79.\<close>

definition process_card_analysis_try ::
  "'db services \<Rightarrow> upfile \<Rightarrow> 'db world \<Rightarrow> (exn + (pydict \<times> pydict) option) \<times> 'db world" where
  "process_card_analysis_try svc uploaded_file w0 =
     (let w1 = emit (StImage uploaded_file ''Card Image'') w0;
          w2 = emit (StSpinner ''Processing...'') w1;
          file_name = name uploaded_file;
          file = getvalue uploaded_file;
          w3 = record_call (UploadBlob file file_name) w2
      in case upload_blob svc file file_name of
           Inl e \<Rightarrow> (Inl e, w3)
         | Inr blob_url \<Rightarrow>
             if \<not> truthy blob_url then
               (Inr None, emit (StError ''Error uploading image to Blob Storage.'') w3)
             else
               (let w4 = record_call (DetectCardInfo blob_url) w3
                in case detect_credit_card_info_from_url svc blob_url of
                     Inl e \<Rightarrow> (Inl e, w4)
                   | Inr card_info \<Rightarrow>
                       if \<not> truthy_dict card_info then
                         (Inr None, emit (StError ''Unable to analyze card.'') w4)
                       else
                         (let ci = the card_info;
                              w5 = record_call (ValidateCardInfo ci) w4
                          in case validate_card_info svc ci of
                               Inl e \<Rightarrow> (Inl e, w5)
                             | Inr validation_result \<Rightarrow>
                                 (Inr (Some (ci, validation_result)), w5))))"

text \<open>
  The function with its handler, lines 81 to 83. \<^verbatim>\<open>except Exception\<close> catches the members
  of the \<^verbatim>\<open>Exception\<close> hierarchy; any other exception leaves the function.
\<close>

definition process_card_analysis ::
  "'db services \<Rightarrow> upfile \<Rightarrow> 'db world \<Rightarrow> (exn + (pydict \<times> pydict) option) \<times> 'db world" where
  "process_card_analysis svc uploaded_file w =
     (case process_card_analysis_try svc uploaded_file w of
        (Inl e, w') \<Rightarrow>
          if is_exception e then
            (Inr None, emit (StError (''Error during card analysis: '' @ exn_str e)) w')
          else (Inl e, w')
      | (Inr r, w') \<Rightarrow> (Inr r, w'))"

section \<open>card_analysis_page\<close>

definition emoji_credit_card :: string where
  "emoji_credit_card = [CHR 0xF0, CHR 0x9F, CHR 0x92, CHR 0xB3]"

definition emoji_check_mark :: string where
  "emoji_check_mark = [CHR 0xE2, CHR 0x9C, CHR 0x85]"

definition emoji_cross_mark :: string where
  "emoji_cross_mark = [CHR 0xE2, CHR 0x9D, CHR 0x8C]"

text \<open>
  Lines 297 to 316: what the page does with the pair that \<^verbatim>\<open>process_card_analysis\<close>
  returned. The subscripts \<^verbatim>\<open>validation_result["is_valid"]\<close>, \<^verbatim>\<open>card_info["card_number"]\<close>
  and \<^verbatim>\<open>existing_card['id']\<close> are outside every \<^verbatim>\<open>try\<close>: a missing key leaves the page
  as a \<^verbatim>\<open>KeyError\<close>, and so does an exception of the database service. Line 311 reads
  \<^verbatim>\<open>validation_result["is_valid"]\<close> a second time; the dictionary has not changed since
  line 300, so the value is the one read there.
\<close>

definition report_analysis ::
  "'db services \<Rightarrow> pydict \<Rightarrow> pydict \<Rightarrow> 'db world \<Rightarrow> (exn + unit) \<times> 'db world" where
  "report_analysis svc card_info validation_result w0 =
     (let w1 = emit (StWrite ''Card Information:'') w0;
          w2 = emit (StWriteDict card_info) w1
      in case getitem validation_result ''is_valid'' of
           Inl e \<Rightarrow> (Inl e, w2)
         | Inr is_valid \<Rightarrow>
             if truthy is_valid then
               (let w3 = emit (StSuccess (emoji_check_mark @ '' Valid Card'')) w2
                in case getitem card_info ''card_number'' of
                     Inl e \<Rightarrow> (Inl e, w3)
                   | Inr card_number \<Rightarrow>
                       (let w4 = record_call (GetCardByNumber card_number) w3
                        in case get_card_by_number svc card_number (db w4) of
                             (Inl e, d) \<Rightarrow> (Inl e, w4\<lparr>db := d\<rparr>)
                           | (Inr existing_card, d) \<Rightarrow>
                               (let w5 = w4\<lparr>db := d\<rparr>
                                in if truthy_dict existing_card then
                                     (case getitem (the existing_card) ''id'' of
                                        Inl e \<Rightarrow> (Inl e, w5)
                                      | Inr i \<Rightarrow>
                                          (Inr (),
                                           emit (StInfo (''Card already exists in database. ID: ''
                                                   @ py_str i)) w5))
                                   else
                                     (let card_info1 = AList.update ''is_valid'' is_valid card_info;
                                          card_info2 = AList.update ''processed_at''
                                                         (PStr (now_isoformat svc)) card_info1;
                                          w6 = record_call (InsertCard card_info2) w5
                                      in case insert_card svc card_info2 (db w6) of
                                           (Inl e, d') \<Rightarrow> (Inl e, w6\<lparr>db := d'\<rparr>)
                                         | (Inr _, d') \<Rightarrow>
                                             (Inr (),
                                              emit (StSuccess ''Card inserted into database!'')
                                                (w6\<lparr>db := d'\<rparr>))))))
             else
               (Inr (), emit (StError (emoji_cross_mark @ '' Invalid Card'')) w2))"

text \<open>
  The page, lines 287 to 316. \<^verbatim>\<open>uploaded_file\<close> is what the file uploader returned and
  \<^verbatim>\<open>analyze_clicked\<close> what the button returns; the button is only drawn when a file is
  there. The pair in \<^verbatim>\<open>result\<close> is a non-empty tuple, so \<^verbatim>\<open>if result:\<close> holds exactly when
  \<^verbatim>\<open>result\<close> is not \<^verbatim>\<open>None\<close>.
\<close>

definition card_analysis_page ::
  "'db services \<Rightarrow> upfile option \<Rightarrow> bool \<Rightarrow> 'db world \<Rightarrow> (exn + unit) \<times> 'db world" where
  "card_analysis_page svc uploaded_file analyze_clicked w0 =
     (let w1 = emit (StTitle (emoji_credit_card @ '' Card Analysis'')) w0;
          w2 = emit (StFileUploader ''Upload card image'' [''jpg'', ''jpeg'', ''png'']) w1
      in case uploaded_file of
           None \<Rightarrow> (Inr (), w2)
         | Some f \<Rightarrow>
             (let w3 = emit (StButton (emoji_credit_card @ '' Analyze Card'')) w2
              in if \<not> analyze_clicked then (Inr (), w3)
                 else
                   (case process_card_analysis svc f w3 of
                      (Inl e, w4) \<Rightarrow> (Inl e, w4)
                    | (Inr None, w4) \<Rightarrow> (Inr (), w4)
                    | (Inr (Some (card_info, validation_result)), w4) \<Rightarrow>
                        report_analysis svc card_info validation_result w4)))"

section \<open>database_query_page\<close>

definition emoji_magnifier_left :: string where
  "emoji_magnifier_left = [CHR 0xF0, CHR 0x9F, CHR 0x94, CHR 0x8D]"

definition emoji_magnifier_right :: string where
  "emoji_magnifier_right = [CHR 0xF0, CHR 0x9F, CHR 0x94, CHR 0x8E]"

definition emoji_bar_chart :: string where
  "emoji_bar_chart = [CHR 0xF0, CHR 0x9F, CHR 0x93, CHR 0x8A]"

definition emoji_floppy_disk :: string where
  "emoji_floppy_disk = [CHR 0xF0, CHR 0x9F, CHR 0x92, CHR 0xBE]"

definition emoji_warning :: string where
  "emoji_warning = [CHR 0xE2, CHR 0x9A, CHR 0xA0, CHR 0xEF, CHR 0xB8, CHR 0x8F]"

definition query_examples :: string where
  "query_examples =
     [CHR 0x0A] @ ''        **Query Examples:**'' @
     [CHR 0x0A] @ ''        - All records: `SELECT * FROM credit_cards`'' @
     [CHR 0x0A] @ ''        - Cards by id: `SELECT * FROM credit_cards WHERE id = 1`'' @
     [CHR 0x0A] @ ''        - Cards by name: `SELECT * FROM credit_cards WHERE card_name = ''
                @ [CHR 0x22] @ ''GABRIEL LIMA'' @ [CHR 0x22] @ ''`'' @
     [CHR 0x0A] @ ''        - Cards issued by bank: `SELECT * FROM credit_cards WHERE bank_name = ''
                @ [CHR 0x27] @ ''Bank X'' @ [CHR 0x27] @ ''`'' @
     [CHR 0x0A] @ ''        ''"

text \<open>
  Lines 94 to 112: the table of all records. \<^verbatim>\<open>pd.DataFrame\<close> and \<^verbatim>\<open>to_csv\<close> only
  reshape the rows for display; the events carry the rows themselves.
\<close>

definition show_all_records_try ::
  "'db services \<Rightarrow> 'db world \<Rightarrow> (exn + unit) \<times> 'db world" where
  "show_all_records_try svc w0 =
     (let w1 = record_call GetAllCards w0
      in case get_all_cards svc (db w1) of
           (Inl e, d) \<Rightarrow> (Inl e, w1\<lparr>db := d\<rparr>)
         | (Inr all_data, d) \<Rightarrow>
             (let w2 = w1\<lparr>db := d\<rparr>
              in if all_data \<noteq> [] then
                   (let w3 = emit (StDataframe all_data) w2
                    in (Inr (),
                        emit (StDownloadButton (emoji_floppy_disk @ '' Download All Data (CSV)'')
                                all_data ''all_credit_cards_data.csv'' ''text/csv'') w3))
                 else
                   (Inr (),
                    emit (StInfo (emoji_warning @ '' No data found in `credit_cards` table.''))
                      w2)))"

definition show_all_records :: "'db services \<Rightarrow> 'db world \<Rightarrow> (exn + unit) \<times> 'db world" where
  "show_all_records svc w0 =
     (let w1 = emit (StSubheader (emoji_bar_chart @ '' All Records in `credit_cards` Table'')) w0
      in case show_all_records_try svc w1 of
           (Inl e, w') \<Rightarrow>
             if is_exception e then
               (Inr (), emit (StError (''Error loading all data: '' @ exn_str e)) w')
             else (Inl e, w')
         | (Inr u, w') \<Rightarrow> (Inr u, w'))"

text \<open>The body of the \<^verbatim>\<open>try\<close> block under the button, lines 136 to 153.\<close>

definition run_custom_query_try ::
  "'db services \<Rightarrow> string \<Rightarrow> 'db world \<Rightarrow> (exn + unit) \<times> 'db world" where
  "run_custom_query_try svc query w0 =
     (let w1 = record_call (ExecuteCustomQuery query) w0
      in case execute_custom_query svc query (db w1) of
           (Inl e, d) \<Rightarrow> (Inl e, w1\<lparr>db := d\<rparr>)
         | (Inr results, d) \<Rightarrow>
             (let w2 = w1\<lparr>db := d\<rparr>
              in if results \<noteq> [] then
                   (let w3 = emit (StDataframe results) w2
                    in (Inr (),
                        emit (StDownloadButton (emoji_floppy_disk @ '' Download Results (CSV)'')
                                results ''query_results.csv'' ''text/csv'') w3))
                 else
                   (Inr (),
                    emit (StInfo (emoji_magnifier_left @ '' No results found for the query.''))
                      w2)))"

text \<open>
  The two handlers, lines 154 to 157: \<^verbatim>\<open>except ValueError\<close> comes first, every other
  member of the \<^verbatim>\<open>Exception\<close> hierarchy falls to \<^verbatim>\<open>except Exception\<close>, and an exception
  outside of it leaves the page.
\<close>

definition run_custom_query ::
  "'db services \<Rightarrow> string \<Rightarrow> 'db world \<Rightarrow> (exn + unit) \<times> 'db world" where
  "run_custom_query svc query w =
     (case run_custom_query_try svc query w of
        (Inl (ValueError m), w') \<Rightarrow>
          (Inr (),
           emit (StError (emoji_cross_mark @ '' Validation error: '' @ exn_str (ValueError m))) w')
      | (Inl e, w') \<Rightarrow>
          if is_exception e then
            (Inr (),
             emit (StError (emoji_cross_mark @ '' Error executing query: '' @ exn_str e)) w')
          else (Inl e, w')
      | (Inr u, w') \<Rightarrow> (Inr u, w'))"

text \<open>
  The page, lines 91 to 157. \<^verbatim>\<open>query\<close> is the content of the text area and
  \<^verbatim>\<open>execute_clicked\<close> what the button returns.
\<close>

definition database_query_page ::
  "'db services \<Rightarrow> string \<Rightarrow> bool \<Rightarrow> 'db world \<Rightarrow> (exn + unit) \<times> 'db world" where
  "database_query_page svc query execute_clicked w0 =
     (let w1 = emit (StTitle (emoji_magnifier_left @ '' Database Query'')) w0
      in case show_all_records svc w1 of
           (Inl e, w2) \<Rightarrow> (Inl e, w2)
         | (Inr _, w2) \<Rightarrow>
             (let w3 = emit (StMarkdown ''---'') w2;
                  w4 = emit (StSubheader (emoji_magnifier_right @ '' Custom Queries'')) w3;
                  w5 = emit (StMarkdown query_examples) w4;
                  w6 = emit (StTextArea ''Enter your SQL query:'') w5;
                  w7 = emit (StButton ''Execute Query'') w6
              in if execute_clicked then run_custom_query svc query w7
                 else (Inr (), w7)))"

section \<open>Field Normalizer\<close>

text \<open>
  Modelled from the spec: the Field Normalizer is not part of the sources. Section 3 has the
  card number as a "digit string": the ten ASCII digits.
\<close>

definition is_digit :: "char \<Rightarrow> bool" where
  "is_digit c = (48 \<le> (of_char c :: nat) \<and> (of_char c :: nat) \<le> 57)"

text \<open>
  Modelled from the spec: the Field Normalizer is not part of the sources. The "whitespace"
  of section 4.1: space, tab, line feed, vertical tab, form feed and carriage return.
\<close>

definition is_space :: "char \<Rightarrow> bool" where
  "is_space c = (c \<in> set [CHR 0x20, CHR 0x09, CHR 0x0A, CHR 0x0B, CHR 0x0C, CHR 0x0D])"

text \<open>
  Modelled from the spec: the Field Normalizer is not part of the sources. Section 4.1,
  card number: "strip all non-digit characters; if result length is outside 12-19, keep
  it".
\<close>

definition normalize_card_number :: "string \<Rightarrow> string" where
  "normalize_card_number raw = filter is_digit raw"

text \<open>
  Modelled from the spec: the Field Normalizer is not part of the sources. Section 4.1,
  holder name and bank name: "trim whitespace, collapse internal whitespace runs, preserve
  case". The text is cut into its maximal runs of non-whitespace characters, which are put
  together again with one space between two of them.
\<close>

fun split_words :: "string \<Rightarrow> string list" where
  "split_words [] = []"
| "split_words (c # cs) =
     (if is_space c then split_words cs
      else if cs = [] \<or> is_space (hd cs) then [c] # split_words cs
      else (case split_words cs of
              [] \<Rightarrow> [[c]]
            | w # ws \<Rightarrow> (c # w) # ws))"

text \<open>
  Modelled from the spec: the Field Normalizer is not part of the sources. Section 4.1,
  "collapse internal whitespace runs": one space stands between two words.
\<close>

fun join_words :: "string list \<Rightarrow> string" where
  "join_words [] = []"
| "join_words [w] = w"
| "join_words (w # ws) = w @ CHR 0x20 # join_words ws"

text \<open>
  Modelled from the spec: the Field Normalizer is not part of the sources. Section 4.1,
  holder name and bank name: the words of the text, joined.
\<close>

definition normalize_name :: "string \<Rightarrow> string" where
  "normalize_name raw = join_words (split_words raw)"

text \<open>A word: a non-empty run of characters that are not whitespace.\<close>

definition is_word :: "string \<Rightarrow> bool" where
  "is_word w = (w \<noteq> [] \<and> list_all (\<lambda>c. \<not> is_space c) w)"

section \<open>Card Validator\<close>

text \<open>
  Modelled from the spec: the Card Validator is not part of the sources. Section 3,
  expiration: "(month:1-12, year:4-digit)"; the injected current time of section 4.2 is a
  month of a year too.
\<close>

record year_month =
  month :: int
  year :: int

text \<open>
  Modelled from the spec: the Card Validator is not part of the sources. The
  \<^verbatim>\<open>CandidateFields\<close> of section 4.1, with the fields of section 3 that the normalizer
  fills; "unparsable input yields an empty expiry".
\<close>

record candidate_fields =
  card_number :: string
  expiration :: "year_month option"
  holder_name :: string
  bank_name :: string

text \<open>
  Modelled from the spec: the Card Validator is not part of the sources. One reason for
  each of the six rules of section 4.2.
\<close>

datatype failure_reason =
    BadCardNumber
  | ChecksumFailed
  | ExpiryMissing
  | ExpiryInPast
  | HolderNameMissing
  | BankNameMissing

text \<open>
  Modelled from the spec: the Card Validator is not part of the sources. Section 3:
  "Verdict -- {is_valid: bool, failures: ordered sequence of (field, reason)}".
\<close>

record verdict =
  is_valid :: bool
  failures :: "(string \<times> failure_reason) list"

text \<open>
  Modelled from the spec: the Card Validator is not part of the sources. The value of a
  digit character.
\<close>

definition digit_val :: "char \<Rightarrow> nat" where
  "digit_val c = of_char c - 48"

text \<open>
  Modelled from the spec: the Card Validator is not part of the sources. Section 4.2,
  rule 2: "iterate digits right-to-left", "double every second digit from the rightmost,
  subtract 9 from any result over 9, sum all digits, valid iff sum mod 10 == 0"; a doubled
  digit is reduced "to [its] digit sum". \<^verbatim>\<open>luhn_loop\<close> walks the digits from the rightmost
  one; its flag says whether the digit at hand is one to double. The rightmost digit is
  not doubled, the one before it is: this is the reading under which the spec's known
  vector "4532015112830366" passes.
\<close>

definition reduce_doubled :: "nat \<Rightarrow> nat" where
  "reduce_doubled d = (let t = 2 * d in t div 10 + t mod 10)"

text \<open>
  Modelled from the spec: the Card Validator is not part of the sources. Section 4.2,
  rule 2: the walk over the digits, starting at the rightmost one, "total all digits".
\<close>

fun luhn_loop :: "bool \<Rightarrow> nat list \<Rightarrow> nat" where
  "luhn_loop dbl [] = 0"
| "luhn_loop dbl (d # ds) = (if dbl then reduce_doubled d else d) + luhn_loop (\<not> dbl) ds"

text \<open>
  Modelled from the spec: the Card Validator is not part of the sources. Section 4.2,
  rule 2: "iterate digits right-to-left"; the rightmost digit is not doubled.
\<close>

definition luhn_sum :: "string \<Rightarrow> nat" where
  "luhn_sum number = luhn_loop False (rev (map digit_val number))"

text \<open>
  Modelled from the spec: the Card Validator is not part of the sources. Section 4.2,
  rule 2: "success iff total \<equiv> 0 (mod 10)".
\<close>

definition checksum_ok :: "string \<Rightarrow> bool" where
  "checksum_ok number = (luhn_sum number mod 10 = 0)"

text \<open>
  The Luhn sum as the claim words it, position by position: position 0 is the rightmost
  digit, every second digit from there (positions 1, 3, 5, ...) is doubled, and 9 is
  subtracted from a doubled digit over 9.
\<close>

definition luhn_term :: "nat \<Rightarrow> nat \<Rightarrow> nat" where
  "luhn_term i d = (if odd i then (if 2 * d > 9 then 2 * d - 9 else 2 * d) else d)"

definition luhn_sum_by_position :: "string \<Rightarrow> nat" where
  "luhn_sum_by_position number =
     (\<Sum>i < length number. luhn_term i (digit_val (number ! (length number - 1 - i))))"

text \<open>
  Modelled from the spec: the Card Validator is not part of the sources. Section 3,
  expiration: "year \<ge> current year; if year == current year, month \<ge> current month";
  section 4.2, rule 4: "compared against the current month/year at validation time".
\<close>

definition expiry_not_past :: "year_month \<Rightarrow> year_month \<Rightarrow> bool" where
  "expiry_not_past now e =
     (year e > year now \<or> (year e = year now \<and> month e \<ge> month now))"

text \<open>
  The month before a month: the "expiry one month in the past" of section 8.
\<close>

definition previous_month :: "year_month \<Rightarrow> year_month" where
  "previous_month ym =
     (if month ym = 1 then \<lparr>month = 12, year = year ym - 1\<rparr>
      else \<lparr>month = month ym - 1, year = year ym\<rparr>)"

text \<open>
  Modelled from the spec: the Card Validator is not part of the sources. Section 4.2: six
  rules, "all are checked -- failures accumulate, not short-circuited", and "is_valid is
  true iff all six checks pass". \<^verbatim>\<open>now\<close> is the injected current month and year. Rule 4
  has nothing to compare when the expiry is missing; rule 3 reports that case.
\<close>

definition validate :: "year_month \<Rightarrow> candidate_fields \<Rightarrow> verdict" where
  "validate now cand =
     (let f1 = (if card_number cand \<noteq> [] \<and> list_all is_digit (card_number cand)
                   \<and> 12 \<le> length (card_number cand) \<and> length (card_number cand) \<le> 19
                then [] else [(''card_number'', BadCardNumber)]);
          f2 = (if checksum_ok (card_number cand) then []
                else [(''card_number'', ChecksumFailed)]);
          f3 = (case expiration cand of
                  None \<Rightarrow> [(''expiration'', ExpiryMissing)]
                | Some e \<Rightarrow> []);
          f4 = (case expiration cand of
                  None \<Rightarrow> []
                | Some e \<Rightarrow> if expiry_not_past now e then []
                            else [(''expiration'', ExpiryInPast)]);
          f5 = (if normalize_name (holder_name cand) \<noteq> [] then []
                else [(''holder_name'', HolderNameMissing)]);
          f6 = (if normalize_name (bank_name cand) \<noteq> [] then []
                else [(''bank_name'', BankNameMissing)]);
          fs = f1 @ f2 @ f3 @ f4 @ f5 @ f6
      in \<lparr>is_valid = (fs = []), failures = fs\<rparr>)"

section \<open>Record Store\<close>

text \<open>
  Modelled from the spec: the Record Store is not part of the sources. Section 6: "one
  table", whose rows carry the fields of section 3; the next free id, for the "fresh
  monotonically increasing id" of section 4.3; and the statements that reached the query
  engine, in the order they were run.
\<close>

record store =
  rows :: "pydict list"
  next_id :: int
  executed :: "string list"

text \<open>
  Modelled from the spec: the Record Store is not part of the sources. Section 4.3,
  get_by_card_number: "exact-match lookup; absence is not an error, it returns 'not
  found'".
\<close>

definition store_get_by_card_number :: "pyval \<Rightarrow> store \<Rightarrow> pydict option" where
  "store_get_by_card_number number st =
     find (\<lambda>r. map_of r ''card_number'' = Some number) (rows st)"

text \<open>
  Modelled from the spec: the Record Store is not part of the sources. Section 4.3, insert:
  "fails with DuplicateKey if a record with the same card_number already exists; otherwise
  assigns a fresh monotonically increasing id and persists".
\<close>

definition store_insert :: "pydict \<Rightarrow> store \<Rightarrow> (exn + pyval) \<times> store" where
  "store_insert crec st =
     (if list_ex (\<lambda>r. map_of r ''card_number'' = map_of crec ''card_number'') (rows st) then
        (Inl (DuplicateKey ''card_number''), st)
      else
        (Inr (PInt (next_id st)),
         st\<lparr>rows := rows st @ [AList.update ''id'' (PInt (next_id st)) crec],
            next_id := next_id st + 1\<rparr>))"

text \<open>
  Modelled from the spec: the Record Store is not part of the sources. Section 4.3, get_all:
  "full scan, stable order (e.g., by id ascending)".
\<close>

definition store_get_all :: "store \<Rightarrow> pydict list" where
  "store_get_all st = rows st"




section \<open>Query Gateway\<close>

text \<open>
  Modelled from the spec: the Query Gateway is not part of the sources. The four rejections
  of section 4.4.
\<close>

datatype reject_reason = EmptyQuery | NotReadOnly | MultipleStatements | CommentInjection

text \<open>
  Modelled from the spec: the Query Gateway is not part of the sources. Section 7:
  \<^verbatim>\<open>QueryValidationError\<close> and \<^verbatim>\<open>QueryExecutionError\<close>.
\<close>

datatype query_error = QueryValidationError reject_reason | QueryExecutionError string

text \<open>
  Modelled from the spec: the Query Gateway is not part of the sources. The letters a
  keyword is made of.
\<close>

definition is_alpha :: "char \<Rightarrow> bool" where
  "is_alpha c = ((65 \<le> (of_char c :: nat) \<and> (of_char c :: nat) \<le> 90)
                 \<or> (97 \<le> (of_char c :: nat) \<and> (of_char c :: nat) \<le> 122))"

text \<open>
  Modelled from the spec: the Query Gateway is not part of the sources. Keywords are
  compared "case-insensitively" (section 4.4): upper case letters are mapped to lower case.
\<close>

definition to_lower :: "char \<Rightarrow> char" where
  "to_lower c = (if 65 \<le> (of_char c :: nat) \<and> (of_char c :: nat) \<le> 90
                 then char_of ((of_char c :: nat) + 32) else c)"

text \<open>
  Modelled from the spec: the Query Gateway is not part of the sources. Section 4.4: "Reject
  any statement whose leading keyword is not a read operation (mutating keywords --
  insert/update/delete/drop/alter/create/replace/attach/pragma -- are rejected outright,
  case-insensitively)"; section 9 asks that the "statement must parse as a single SELECT".
\<close>

definition leading_keyword :: "string \<Rightarrow> string" where
  "leading_keyword q = map to_lower (takeWhile is_alpha (dropWhile is_space q))"


text \<open>
  Modelled from the spec: the Query Gateway is not part of the sources. The read operation
  is SELECT (section 9: "statement must parse as a single SELECT").
\<close>

definition is_read_keyword :: "string \<Rightarrow> bool" where
  "is_read_keyword k = (k = ''select'')"

text \<open>
  Modelled from the spec: the Query Gateway is not part of the sources. Section 4.4: "Reject
  multiple statements (any statement-separator token found outside of a quoted literal)".
  The first argument is the quote character of the literal the scan is inside of, if any.
\<close>

fun has_separator :: "char option \<Rightarrow> string \<Rightarrow> bool" where
  "has_separator q [] = False"
| "has_separator (Some q) (c # cs) =
     (if c = q then has_separator None cs else has_separator (Some q) cs)"
| "has_separator None (c # cs) =
     (if c = CHR 0x3B then True
      else if c = CHR 0x27 \<or> c = CHR 0x22 then has_separator (Some c) cs
      else has_separator None cs)"

text \<open>
  Modelled from the spec: the Query Gateway is not part of the sources. Section 4.4: "Reject
  comment-injection patterns used to smuggle a second statement": a comment opener,
  \<^verbatim>\<open>--\<close> or \<^verbatim>\<open>/*\<close>, outside of a quoted literal.
\<close>

fun has_comment :: "char option \<Rightarrow> string \<Rightarrow> bool" where
  "has_comment q [] = False"
| "has_comment (Some q) (c # cs) =
     (if c = q then has_comment None cs else has_comment (Some q) cs)"
| "has_comment None (c # cs) =
     (if cs \<noteq> [] \<and> ((c = CHR 0x2D \<and> hd cs = CHR 0x2D) \<or> (c = CHR 0x2F \<and> hd cs = CHR 0x2A))
      then True
      else if c = CHR 0x27 \<or> c = CHR 0x22 then has_comment (Some c) cs
      else has_comment None cs)"

text \<open>
  Modelled from the spec: the Query Gateway is not part of the sources. The safety policy
  of section 4.4, its four rejections in the order the spec lists them; \<^verbatim>\<open>None\<close> is a
  single read-only statement.
\<close>

definition check_query :: "string \<Rightarrow> reject_reason option" where
  "check_query q =
     (if list_all is_space q then Some EmptyQuery
      else if \<not> is_read_keyword (leading_keyword q) then Some NotReadOnly
      else if has_separator None q then Some MultipleStatements
      else if has_comment None q then Some CommentInjection
      else None)"

text \<open>
  Modelled from the spec: the Query Gateway is not part of the sources. The engine that runs
  a statement on the store: it returns the rows or the text of its error, and the store
  as the statement left it.
\<close>

type_synonym engine = "string \<Rightarrow> store \<Rightarrow> (string + pydict list) \<times> store"

text \<open>
  Modelled from the spec: the Query Gateway is not part of the sources. Section 4.4:
  \<^verbatim>\<open>execute\<close> "fails with ValidationError when query_text is not a single read-only
  statement"; otherwise it runs the statement "against the Record Store's backing table"
  and returns the rows, and an "execution-time error ... is surfaced as a distinct
  ExecutionError". The engine that runs a statement is a parameter: it may do to the store
  whatever the statement says.
\<close>

definition execute :: "engine \<Rightarrow> string \<Rightarrow> store \<Rightarrow> (query_error + pydict list) \<times> store" where
  "execute run query_text st =
     (case check_query query_text of
        Some reason \<Rightarrow> (Inl (QueryValidationError reason), st)
      | None \<Rightarrow>
          (case run query_text (st\<lparr>executed := executed st @ [query_text]\<rparr>) of
             (Inl msg, st') \<Rightarrow> (Inl (QueryExecutionError msg), st')
           | (Inr result, st') \<Rightarrow> (Inr result, st')))"

text \<open>
  Modelled from the spec: the Query Gateway is not part of the sources. This is the gateway
  as the \<^verbatim>\<open>execute_custom_query\<close> of the pages. Line 154 of \<^verbatim>\<open>app.py\<close> takes a
  \<^verbatim>\<open>ValueError\<close> for the gateway's validation error; every other exception is an execution
  error there. The wording of a rejection is a parameter.
\<close>

definition gateway_execute_custom_query ::
  "engine \<Rightarrow> (reject_reason \<Rightarrow> string) \<Rightarrow> string \<Rightarrow> store \<Rightarrow> (exn + pydict list) \<times> store" where
  "gateway_execute_custom_query run describe query st =
     (case execute run query st of
        (Inl (QueryValidationError reason), st') \<Rightarrow> (Inl (ValueError (describe reason)), st')
      | (Inl (QueryExecutionError msg), st') \<Rightarrow> (Inl (OtherException msg), st')
      | (Inr result, st') \<Rightarrow> (Inr result, st'))"

section \<open>Example inputs\<close>

definition demo_file :: upfile where
  "demo_file = \<lparr>name = ''card.png'', getvalue = ''PNG''\<rparr>"

definition demo_card_info :: pydict where
  "demo_card_info =
     [(''card_number'', PStr ''4532015112830366''),
      (''expiration'', PStr ''01/2030''),
      (''card_name'', PStr ''GABRIEL LIMA''),
      (''bank_name'', PStr ''Bank X'')]"

definition empty_store :: store where
  "empty_store = \<lparr>rows = [], next_id = 1, executed = []\<rparr>"

text \<open>An engine that would empty the table, whatever statement it is given.\<close>

definition demo_engine :: engine where
  "demo_engine q st = (Inr (rows st), st\<lparr>rows := []\<rparr>)"

definition demo_describe :: "reject_reason \<Rightarrow> string" where
  "demo_describe r = ''query rejected''"

definition demo_services :: "store services" where
  "demo_services =
     \<lparr>upload_blob = (\<lambda>file file_name. Inr (PStr ''https://blobs/card.png'')),
      detect_credit_card_info_from_url = (\<lambda>url. Inr (Some demo_card_info)),
      validate_card_info = (\<lambda>ci. Inr [(''is_valid'', PBool True)]),
      get_card_by_number = (\<lambda>number st. (Inr (store_get_by_card_number number st), st)),
      insert_card = store_insert,
      get_all_cards = (\<lambda>st. (Inr (store_get_all st), st)),
      execute_custom_query = gateway_execute_custom_query demo_engine demo_describe,
      now_isoformat = ''2030-01-15T10:30:00''\<rparr>"

definition demo_world :: "store world" where
  "demo_world = \<lparr>ui = [], calls = [], db = empty_store\<rparr>"

text \<open>The store after the card of \<^verbatim>\<open>demo_card_info\<close> was inserted.\<close>

definition demo_row :: pydict where
  "demo_row =
     [(''card_number'', PStr ''4532015112830366''),
      (''expiration'', PStr ''01/2030''),
      (''card_name'', PStr ''GABRIEL LIMA''),
      (''bank_name'', PStr ''Bank X''),
      (''is_valid'', PBool True),
      (''processed_at'', PStr ''2030-01-15T10:30:00''),
      (''id'', PInt 1)]"


text \<open>Normalized fields of a card that is valid in January 2030.\<close>

definition demo_fields :: candidate_fields where
  "demo_fields =
     \<lparr>card_number = ''4532015112830366'',
      expiration = Some \<lparr>month = 1, year = 2030\<rparr>,
      holder_name = ''GABRIEL LIMA'',
      bank_name = ''Bank X''\<rparr>"

section \<open>Facts about the event and call logs\<close>

lemma emit_fields [simp]:
  "ui (emit e w) = ui w @ [e]" "calls (emit e w) = calls w" "db (emit e w) = db w"
  by (simp_all add: emit_def)

lemma record_call_fields [simp]:
  "ui (record_call c w) = ui w" "calls (record_call c w) = calls w @ [c]"
  "db (record_call c w) = db w"
  by (simp_all add: record_call_def)

section \<open>The outcomes of process_card_analysis\<close>

lemma process_card_analysis_upload_null:
  assumes "upload_blob svc (getvalue f) (name f) = Inr u" and "\<not> truthy u"
  shows "process_card_analysis svc f w =
           (Inr None,
            w\<lparr>ui := ui w @ [StImage f ''Card Image'', StSpinner ''Processing...'',
                             StError ''Error uploading image to Blob Storage.''],
              calls := calls w @ [UploadBlob (getvalue f) (name f)]\<rparr>)"
  using assms
  by (simp add: process_card_analysis_def process_card_analysis_try_def Let_def emit_def
      record_call_def)

lemma process_card_analysis_extract_null:
  assumes "upload_blob svc (getvalue f) (name f) = Inr u" and "truthy u"
    and "detect_credit_card_info_from_url svc u = Inr ci" and "\<not> truthy_dict ci"
  shows "process_card_analysis svc f w =
           (Inr None,
            w\<lparr>ui := ui w @ [StImage f ''Card Image'', StSpinner ''Processing...'',
                             StError ''Unable to analyze card.''],
              calls := calls w @ [UploadBlob (getvalue f) (name f), DetectCardInfo u]\<rparr>)"
  using assms
  by (simp add: process_card_analysis_def process_card_analysis_try_def Let_def emit_def
      record_call_def)

lemma process_card_analysis_success:
  assumes "upload_blob svc (getvalue f) (name f) = Inr u" and "truthy u"
    and "detect_credit_card_info_from_url svc u = Inr (Some ci)" and "ci \<noteq> []"
    and "validate_card_info svc ci = Inr vr"
  shows "process_card_analysis svc f w =
           (Inr (Some (ci, vr)),
            w\<lparr>ui := ui w @ [StImage f ''Card Image'', StSpinner ''Processing...''],
              calls := calls w @ [UploadBlob (getvalue f) (name f), DetectCardInfo u,
                                  ValidateCardInfo ci]\<rparr>)"
  using assms
  by (simp add: process_card_analysis_def process_card_analysis_try_def Let_def emit_def
      record_call_def)

text \<open>
  With a service that raises \<^verbatim>\<open>KeyboardInterrupt\<close> in the upload, the function does not
  return: the exception leaves it, and nothing is shown for it.
\<close>

theorem process_card_analysis_propagates_keyboard_interrupt:
  "fst (process_card_analysis
          (demo_services\<lparr>upload_blob := (\<lambda>file file_name. Inl KeyboardInterrupt)\<rparr>)
          demo_file demo_world) = Inl KeyboardInterrupt
   \<and> \<not> (\<exists>r. fst (process_card_analysis
                    (demo_services\<lparr>upload_blob := (\<lambda>file file_name. Inl KeyboardInterrupt)\<rparr>)
                    demo_file demo_world) = Inr r)
   \<and> ui (snd (process_card_analysis
               (demo_services\<lparr>upload_blob := (\<lambda>file file_name. Inl KeyboardInterrupt)\<rparr>)
               demo_file demo_world))
       = [StImage demo_file ''Card Image'', StSpinner ''Processing...'']"
  by (simp add: process_card_analysis_def process_card_analysis_try_def Let_def
      demo_world_def)

text \<open>
  Claim C9. \<^verbatim>\<open>process_card_analysis\<close> never leaves by an exception of the \<^verbatim>\<open>Exception\<close>
  hierarchy. When the upload, the extraction or the validation raises such an exception,
  the result is \<^verbatim>\<open>None\<close> and the last message shown is the error, with the text of the
  exception. An exception outside of the \<^verbatim>\<open>Exception\<close> hierarchy that one of the three
  raises leaves the function.
\<close>

theorem process_card_analysis_catches_exceptions:
  "(\<forall>e. fst (process_card_analysis svc f w) = Inl e \<longrightarrow> \<not> is_exception e)
   \<and> (\<forall>e. (upload_blob svc (getvalue f) (name f) = Inl e
            \<or> (\<exists>u. upload_blob svc (getvalue f) (name f) = Inr u \<and> truthy u
                  \<and> detect_credit_card_info_from_url svc u = Inl e)
            \<or> (\<exists>u ci. upload_blob svc (getvalue f) (name f) = Inr u \<and> truthy u
                  \<and> detect_credit_card_info_from_url svc u = Inr ci \<and> truthy_dict ci
                  \<and> validate_card_info svc (the ci) = Inl e))
          \<longrightarrow> (if is_exception e then
                 fst (process_card_analysis svc f w) = Inr None
                 \<and> last (ui (snd (process_card_analysis svc f w)))
                     = StError (''Error during card analysis: '' @ exn_str e)
               else fst (process_card_analysis svc f w) = Inl e))"
  by (auto simp add: process_card_analysis_def process_card_analysis_try_def Let_def
      split: prod.splits sum.splits if_splits)

theorem process_card_analysis_catches_exceptions_witness:
  "validate_card_info
     (demo_services\<lparr>validate_card_info := (\<lambda>ci. Inl (KeyError ''expiration''))\<rparr>)
     demo_card_info = Inl (KeyError ''expiration'')
   \<and> is_exception (KeyError ''expiration'')
   \<and> fst (process_card_analysis
            (demo_services\<lparr>validate_card_info := (\<lambda>ci. Inl (KeyError ''expiration''))\<rparr>)
            demo_file demo_world) = Inr None
   \<and> last (ui (snd (process_card_analysis
            (demo_services\<lparr>validate_card_info := (\<lambda>ci. Inl (KeyError ''expiration''))\<rparr>)
            demo_file demo_world)))
       = StError (''Error during card analysis: '' @ [CHR 0x27] @ ''expiration'' @ [CHR 0x27])"
proof -
  let ?svc = "demo_services\<lparr>validate_card_info := (\<lambda>ci. Inl (KeyError ''expiration''))\<rparr>"
  have up: "upload_blob ?svc (getvalue demo_file) (name demo_file)
              = Inr (PStr ''https://blobs/card.png'')"
    by (simp add: demo_services_def)
  have det: "detect_credit_card_info_from_url ?svc (PStr ''https://blobs/card.png'')
               = Inr (Some demo_card_info)"
    by (simp add: demo_services_def)
  have tr: "truthy (PStr ''https://blobs/card.png'')" "truthy_dict (Some demo_card_info)"
    by (simp_all add: demo_card_info_def)
  have val: "validate_card_info ?svc (the (Some demo_card_info)) = Inl (KeyError ''expiration'')"
    by simp
  have ex: "is_exception (KeyError ''expiration'')"
    by simp
  have shown: "exn_str (KeyError ''expiration'') = [CHR 0x27] @ ''expiration'' @ [CHR 0x27]"
    by code_simp
  from process_card_analysis_catches_exceptions [of ?svc demo_file demo_world] up det tr val
  have "if is_exception (KeyError ''expiration'') then
          fst (process_card_analysis ?svc demo_file demo_world) = Inr None
          \<and> last (ui (snd (process_card_analysis ?svc demo_file demo_world)))
              = StError (''Error during card analysis: '' @ exn_str (KeyError ''expiration''))
        else fst (process_card_analysis ?svc demo_file demo_world) = Inl (KeyError ''expiration'')"
    by blast
  with ex have "fst (process_card_analysis ?svc demo_file demo_world) = Inr None
        \<and> last (ui (snd (process_card_analysis ?svc demo_file demo_world)))
            = StError (''Error during card analysis: '' @ exn_str (KeyError ''expiration''))"
    by simp
  then show ?thesis unfolding shown by simp
qed

text \<open>
  Claim C6. When the blob upload returns \<^verbatim>\<open>None\<close>, the page shows the upload failure and
  stops: the only service call is the upload, so the extraction is skipped, and the database
  is as it was. When the extraction returns \<^verbatim>\<open>None\<close>, the page shows "Unable to analyze
  card." and stops after the upload and the extraction: nothing is looked up or inserted.
\<close>

theorem null_collaborator_stops_analysis:
  "(upload_blob svc (getvalue f) (name f) = Inr PNone \<longrightarrow>
      card_analysis_page svc (Some f) True w =
        (Inr (),
         w\<lparr>ui := ui w @ [StTitle (emoji_credit_card @ '' Card Analysis''),
                          StFileUploader ''Upload card image'' [''jpg'', ''jpeg'', ''png''],
                          StButton (emoji_credit_card @ '' Analyze Card''),
                          StImage f ''Card Image'', StSpinner ''Processing...'',
                          StError ''Error uploading image to Blob Storage.''],
           calls := calls w @ [UploadBlob (getvalue f) (name f)]\<rparr>))
   \<and> (\<forall>u. upload_blob svc (getvalue f) (name f) = Inr u \<and> truthy u
            \<and> detect_credit_card_info_from_url svc u = Inr None \<longrightarrow>
      card_analysis_page svc (Some f) True w =
        (Inr (),
         w\<lparr>ui := ui w @ [StTitle (emoji_credit_card @ '' Card Analysis''),
                          StFileUploader ''Upload card image'' [''jpg'', ''jpeg'', ''png''],
                          StButton (emoji_credit_card @ '' Analyze Card''),
                          StImage f ''Card Image'', StSpinner ''Processing...'',
                          StError ''Unable to analyze card.''],
           calls := calls w @ [UploadBlob (getvalue f) (name f), DetectCardInfo u]\<rparr>))"
proof (intro conjI impI allI)
  assume up: "upload_blob svc (getvalue f) (name f) = Inr PNone"
  show "card_analysis_page svc (Some f) True w =
        (Inr (),
         w\<lparr>ui := ui w @ [StTitle (emoji_credit_card @ '' Card Analysis''),
                          StFileUploader ''Upload card image'' [''jpg'', ''jpeg'', ''png''],
                          StButton (emoji_credit_card @ '' Analyze Card''),
                          StImage f ''Card Image'', StSpinner ''Processing...'',
                          StError ''Error uploading image to Blob Storage.''],
           calls := calls w @ [UploadBlob (getvalue f) (name f)]\<rparr>)"
    by (simp add: card_analysis_page_def Let_def
        process_card_analysis_upload_null [OF up] emit_def)
next
  fix u
  assume h: "upload_blob svc (getvalue f) (name f) = Inr u \<and> truthy u
            \<and> detect_credit_card_info_from_url svc u = Inr None"
  show "card_analysis_page svc (Some f) True w =
        (Inr (),
         w\<lparr>ui := ui w @ [StTitle (emoji_credit_card @ '' Card Analysis''),
                          StFileUploader ''Upload card image'' [''jpg'', ''jpeg'', ''png''],
                          StButton (emoji_credit_card @ '' Analyze Card''),
                          StImage f ''Card Image'', StSpinner ''Processing...'',
                          StError ''Unable to analyze card.''],
           calls := calls w @ [UploadBlob (getvalue f) (name f), DetectCardInfo u]\<rparr>)"
    using h
    by (simp add: card_analysis_page_def Let_def
        process_card_analysis_extract_null [of svc f u None] emit_def)
qed

theorem null_collaborator_stops_analysis_witness:
  "upload_blob (demo_services\<lparr>upload_blob := (\<lambda>file file_name. Inr PNone)\<rparr>)
     (getvalue demo_file) (name demo_file) = Inr PNone
   \<and> card_analysis_page (demo_services\<lparr>upload_blob := (\<lambda>file file_name. Inr PNone)\<rparr>)
       (Some demo_file) True demo_world =
        (Inr (),
         \<lparr>ui = [StTitle (emoji_credit_card @ '' Card Analysis''),
                StFileUploader ''Upload card image'' [''jpg'', ''jpeg'', ''png''],
                StButton (emoji_credit_card @ '' Analyze Card''),
                StImage demo_file ''Card Image'', StSpinner ''Processing...'',
                StError ''Error uploading image to Blob Storage.''],
          calls = [UploadBlob ''PNG'' ''card.png''],
          db = empty_store\<rparr>)
   \<and> detect_credit_card_info_from_url
       (demo_services\<lparr>detect_credit_card_info_from_url := (\<lambda>url. Inr None)\<rparr>)
       (PStr ''https://blobs/card.png'') = Inr None
   \<and> card_analysis_page
       (demo_services\<lparr>detect_credit_card_info_from_url := (\<lambda>url. Inr None)\<rparr>)
       (Some demo_file) True demo_world =
        (Inr (),
         \<lparr>ui = [StTitle (emoji_credit_card @ '' Card Analysis''),
                StFileUploader ''Upload card image'' [''jpg'', ''jpeg'', ''png''],
                StButton (emoji_credit_card @ '' Analyze Card''),
                StImage demo_file ''Card Image'', StSpinner ''Processing...'',
                StError ''Unable to analyze card.''],
          calls = [UploadBlob ''PNG'' ''card.png'', DetectCardInfo (PStr ''https://blobs/card.png'')],
          db = empty_store\<rparr>)"
proof -
  let ?s1 = "demo_services\<lparr>upload_blob := (\<lambda>file file_name. Inr PNone)\<rparr>"
  let ?s2 = "demo_services\<lparr>detect_credit_card_info_from_url := (\<lambda>url. Inr None)\<rparr>"
  have a: "upload_blob ?s1 (getvalue demo_file) (name demo_file) = Inr PNone"
    by simp
  have b: "upload_blob ?s2 (getvalue demo_file) (name demo_file)
             = Inr (PStr ''https://blobs/card.png'')
           \<and> truthy (PStr ''https://blobs/card.png'')
           \<and> detect_credit_card_info_from_url ?s2 (PStr ''https://blobs/card.png'') = Inr None"
    by (simp add: demo_services_def)
  from null_collaborator_stops_analysis [of ?s1 demo_file demo_world] a
  have c: "card_analysis_page ?s1 (Some demo_file) True demo_world =
        (Inr (),
         demo_world\<lparr>ui := ui demo_world @ [StTitle (emoji_credit_card @ '' Card Analysis''),
                          StFileUploader ''Upload card image'' [''jpg'', ''jpeg'', ''png''],
                          StButton (emoji_credit_card @ '' Analyze Card''),
                          StImage demo_file ''Card Image'', StSpinner ''Processing...'',
                          StError ''Error uploading image to Blob Storage.''],
           calls := calls demo_world @ [UploadBlob (getvalue demo_file) (name demo_file)]\<rparr>)"
    by blast
  from null_collaborator_stops_analysis [of ?s2 demo_file demo_world] b
  have d: "card_analysis_page ?s2 (Some demo_file) True demo_world =
        (Inr (),
         demo_world\<lparr>ui := ui demo_world @ [StTitle (emoji_credit_card @ '' Card Analysis''),
                          StFileUploader ''Upload card image'' [''jpg'', ''jpeg'', ''png''],
                          StButton (emoji_credit_card @ '' Analyze Card''),
                          StImage demo_file ''Card Image'', StSpinner ''Processing...'',
                          StError ''Unable to analyze card.''],
           calls := calls demo_world @ [UploadBlob (getvalue demo_file) (name demo_file),
                                        DetectCardInfo (PStr ''https://blobs/card.png'')]\<rparr>)"
    by blast
  show ?thesis
    using a b
    by (simp add: c d) (simp add: demo_world_def demo_file_def)
qed

section \<open>What card_analysis_page writes\<close>

lemma report_analysis_invalid:
  assumes "map_of vr ''is_valid'' = Some v" and "\<not> truthy v"
  shows "report_analysis svc ci vr w =
           (Inr (),
            w\<lparr>ui := ui w @ [StWrite ''Card Information:'', StWriteDict ci,
                             StError (emoji_cross_mark @ '' Invalid Card'')]\<rparr>)"
  using assms by (simp add: report_analysis_def getitem_def Let_def emit_def)

text \<open>
  Claim C4. When the verdict's \<^verbatim>\<open>is_valid\<close> is false, the page shows "Invalid Card" and
  ends: the service calls are the upload, the extraction and the validation, so the
  database service is neither asked for the card nor given a record, and the database is as
  it was.
\<close>

theorem invalid_verdict_writes_nothing:
  assumes "upload_blob svc (getvalue f) (name f) = Inr u" and "truthy u"
    and "detect_credit_card_info_from_url svc u = Inr (Some ci)" and "ci \<noteq> []"
    and "validate_card_info svc ci = Inr vr"
    and "map_of vr ''is_valid'' = Some v" and "\<not> truthy v"
  shows "card_analysis_page svc (Some f) True w =
           (Inr (),
            w\<lparr>ui := ui w @ [StTitle (emoji_credit_card @ '' Card Analysis''),
                             StFileUploader ''Upload card image'' [''jpg'', ''jpeg'', ''png''],
                             StButton (emoji_credit_card @ '' Analyze Card''),
                             StImage f ''Card Image'', StSpinner ''Processing...'',
                             StWrite ''Card Information:'', StWriteDict ci,
                             StError (emoji_cross_mark @ '' Invalid Card'')],
              calls := calls w @ [UploadBlob (getvalue f) (name f), DetectCardInfo u,
                                  ValidateCardInfo ci]\<rparr>)"
  by (simp add: card_analysis_page_def Let_def
      process_card_analysis_success [OF assms(1-5)]
      report_analysis_invalid [OF assms(6,7)] emit_def)

theorem invalid_verdict_writes_nothing_witness:
  "validate_card_info
     (demo_services\<lparr>validate_card_info := (\<lambda>ci. Inr [(''is_valid'', PBool False)])\<rparr>)
     demo_card_info = Inr [(''is_valid'', PBool False)]
   \<and> \<not> truthy (PBool False)
   \<and> card_analysis_page
       (demo_services\<lparr>validate_card_info := (\<lambda>ci. Inr [(''is_valid'', PBool False)])\<rparr>)
       (Some demo_file) True demo_world =
        (Inr (),
         \<lparr>ui = [StTitle (emoji_credit_card @ '' Card Analysis''),
                StFileUploader ''Upload card image'' [''jpg'', ''jpeg'', ''png''],
                StButton (emoji_credit_card @ '' Analyze Card''),
                StImage demo_file ''Card Image'', StSpinner ''Processing...'',
                StWrite ''Card Information:'', StWriteDict demo_card_info,
                StError (emoji_cross_mark @ '' Invalid Card'')],
          calls = [UploadBlob ''PNG'' ''card.png'', DetectCardInfo (PStr ''https://blobs/card.png''),
                   ValidateCardInfo demo_card_info],
          db = empty_store\<rparr>)"
proof -
  let ?svc = "demo_services\<lparr>validate_card_info := (\<lambda>ci. Inr [(''is_valid'', PBool False)])\<rparr>"
  have h1: "upload_blob ?svc (getvalue demo_file) (name demo_file)
              = Inr (PStr ''https://blobs/card.png'')"
    by (simp add: demo_services_def)
  have h2: "truthy (PStr ''https://blobs/card.png'')" by simp
  have h3: "detect_credit_card_info_from_url ?svc (PStr ''https://blobs/card.png'')
              = Inr (Some demo_card_info)"
    by (simp add: demo_services_def)
  have h4: "demo_card_info \<noteq> []" by (simp add: demo_card_info_def)
  have h5: "validate_card_info ?svc demo_card_info = Inr [(''is_valid'', PBool False)]"
    by simp
  have h6: "map_of [(''is_valid'', PBool False)] ''is_valid'' = Some (PBool False)" by simp
  have h7: "\<not> truthy (PBool False)" by simp
  from invalid_verdict_writes_nothing [OF h1 h2 h3 h4 h5 h6 h7, of demo_world]
  show ?thesis
    by (simp add: demo_world_def demo_file_def)
qed

lemma report_analysis_insert:
  assumes "map_of vr ''is_valid'' = Some v" and "truthy v"
    and "map_of ci ''card_number'' = Some n"
    and "get_card_by_number svc n (db w) = (Inr ex, d)" and "\<not> truthy_dict ex"
    and "insert_card svc
           (AList.update ''processed_at'' (PStr (now_isoformat svc))
              (AList.update ''is_valid'' v ci)) d = (res, d')"
  shows "report_analysis svc ci vr w =
           (case res of Inl e \<Rightarrow> Inl e | Inr i \<Rightarrow> Inr (),
            w\<lparr>ui := ui w @ [StWrite ''Card Information:'', StWriteDict ci,
                             StSuccess (emoji_check_mark @ '' Valid Card'')]
                      @ (case res of Inl e \<Rightarrow> []
                         | Inr i \<Rightarrow> [StSuccess ''Card inserted into database!'']),
              calls := calls w @ [GetCardByNumber n,
                        InsertCard (AList.update ''processed_at'' (PStr (now_isoformat svc))
                                     (AList.update ''is_valid'' v ci))],
              db := d'\<rparr>)"
  using assms
  by (simp add: report_analysis_def getitem_def Let_def emit_def record_call_def
      split: sum.splits)


text \<open>
  Claim C8. For a valid card that the database does not hold yet, the record handed to
  \<^verbatim>\<open>insert_card\<close> is the extractor's \<^verbatim>\<open>card_info\<close> with \<^verbatim>\<open>is_valid\<close> set to the verdict's
  value and \<^verbatim>\<open>processed_at\<close> set to the current timestamp; every other key has the value
  the extractor gave it. The insert is the last service call and the database after the
  page is the one the insert left.
\<close>

theorem inserted_record_is_card_info_with_two_fields:
  assumes "upload_blob svc (getvalue f) (name f) = Inr u" and "truthy u"
    and "detect_credit_card_info_from_url svc u = Inr (Some ci)" and "ci \<noteq> []"
    and "validate_card_info svc ci = Inr vr"
    and "map_of vr ''is_valid'' = Some v" and "truthy v"
    and "map_of ci ''card_number'' = Some n"
    and "get_card_by_number svc n (db w) = (Inr ex, d)" and "\<not> truthy_dict ex"
  shows "(let crec = AList.update ''processed_at'' (PStr (now_isoformat svc))
                       (AList.update ''is_valid'' v ci)
          in calls (snd (card_analysis_page svc (Some f) True w)) =
               calls w @ [UploadBlob (getvalue f) (name f), DetectCardInfo u,
                          ValidateCardInfo ci, GetCardByNumber n, InsertCard crec]
           \<and> db (snd (card_analysis_page svc (Some f) True w)) = snd (insert_card svc crec d)
           \<and> map_of crec = (map_of ci)(''is_valid'' \<mapsto> v,
                                        ''processed_at'' \<mapsto> PStr (now_isoformat svc))
           \<and> (\<forall>k. k \<noteq> ''is_valid'' \<and> k \<noteq> ''processed_at'' \<longrightarrow> map_of crec k = map_of ci k))"
proof -
  let ?crec = "AList.update ''processed_at'' (PStr (now_isoformat svc))
                 (AList.update ''is_valid'' v ci)"
  let ?w4 = "(emit (StButton (emoji_credit_card @ '' Analyze Card''))
               (emit (StFileUploader ''Upload card image'' [''jpg'', ''jpeg'', ''png''])
                 (emit (StTitle (emoji_credit_card @ '' Card Analysis'')) w)))
             \<lparr>ui := ui w @ [StTitle (emoji_credit_card @ '' Card Analysis''),
                             StFileUploader ''Upload card image'' [''jpg'', ''jpeg'', ''png''],
                             StButton (emoji_credit_card @ '' Analyze Card''),
                             StImage f ''Card Image'', StSpinner ''Processing...''],
               calls := calls w @ [UploadBlob (getvalue f) (name f), DetectCardInfo u,
                                   ValidateCardInfo ci]\<rparr>"
  obtain res d' where ins: "insert_card svc ?crec d = (res, d')"
    by (cases "insert_card svc ?crec d")
  have page: "card_analysis_page svc (Some f) True w = report_analysis svc ci vr ?w4"
    by (simp add: card_analysis_page_def Let_def process_card_analysis_success [OF assms(1-5)])
  have look: "get_card_by_number svc n (db ?w4) = (Inr ex, d)"
    using assms(9) by simp
  have "calls (snd (report_analysis svc ci vr ?w4)) =
          calls w @ [UploadBlob (getvalue f) (name f), DetectCardInfo u,
                     ValidateCardInfo ci, GetCardByNumber n, InsertCard ?crec]
        \<and> db (snd (report_analysis svc ci vr ?w4)) = d'"
    by (simp add: report_analysis_insert [OF assms(6,7,8) look assms(10) ins])
  moreover have "map_of ?crec = (map_of ci)(''is_valid'' \<mapsto> v,
                                            ''processed_at'' \<mapsto> PStr (now_isoformat svc))"
    "\<forall>k. k \<noteq> ''is_valid'' \<and> k \<noteq> ''processed_at'' \<longrightarrow> map_of ?crec k = map_of ci k"
    by (simp_all add: update_conv')
  ultimately show ?thesis
    using page ins by (simp add: Let_def)
qed

theorem inserted_record_is_card_info_with_two_fields_witness:
  "get_card_by_number demo_services (PStr ''4532015112830366'') (db demo_world)
     = (Inr None, empty_store)
   \<and> calls (snd (card_analysis_page demo_services (Some demo_file) True demo_world)) =
       [UploadBlob ''PNG'' ''card.png'', DetectCardInfo (PStr ''https://blobs/card.png''),
        ValidateCardInfo demo_card_info, GetCardByNumber (PStr ''4532015112830366''),
        InsertCard
          [(''card_number'', PStr ''4532015112830366''),
           (''expiration'', PStr ''01/2030''),
           (''card_name'', PStr ''GABRIEL LIMA''),
           (''bank_name'', PStr ''Bank X''),
           (''is_valid'', PBool True),
           (''processed_at'', PStr ''2030-01-15T10:30:00'')]]
   \<and> rows (db (snd (card_analysis_page demo_services (Some demo_file) True demo_world)))
       = [demo_row]"
proof -
  have h1: "upload_blob demo_services (getvalue demo_file) (name demo_file)
              = Inr (PStr ''https://blobs/card.png'')"
    by (simp add: demo_services_def)
  have h2: "truthy (PStr ''https://blobs/card.png'')" by simp
  have h3: "detect_credit_card_info_from_url demo_services (PStr ''https://blobs/card.png'')
              = Inr (Some demo_card_info)"
    by (simp add: demo_services_def)
  have h4: "demo_card_info \<noteq> []" by (simp add: demo_card_info_def)
  have h5: "validate_card_info demo_services demo_card_info = Inr [(''is_valid'', PBool True)]"
    by (simp add: demo_services_def)
  have h6: "map_of [(''is_valid'', PBool True)] ''is_valid'' = Some (PBool True)" by simp
  have h7: "truthy (PBool True)" by simp
  have h8: "map_of demo_card_info ''card_number'' = Some (PStr ''4532015112830366'')"
    by (simp add: demo_card_info_def)
  have h9: "get_card_by_number demo_services (PStr ''4532015112830366'') (db demo_world)
              = (Inr None, empty_store)"
    by (simp add: demo_services_def demo_world_def empty_store_def store_get_by_card_number_def)
  have h10: "\<not> truthy_dict None" by simp
  from inserted_record_is_card_info_with_two_fields [OF h1 h2 h3 h4 h5 h6 h7 h8 h9 h10]
  show ?thesis
    using h9
    by (simp add: Let_def demo_world_def demo_file_def demo_card_info_def demo_services_def
        store_insert_def empty_store_def demo_row_def)
qed

section \<open>The Record Store under card_analysis_page\<close>













section \<open>The outcomes of a custom query\<close>

lemma show_all_records_raises:
  "fst (show_all_records svc w) = Inl e \<Longrightarrow> \<not> is_exception e"
  by (auto simp add: show_all_records_def show_all_records_try_def Let_def
      split: prod.splits sum.splits if_splits)

lemma run_custom_query_raises:
  "fst (run_custom_query svc q w) = Inl e \<Longrightarrow> \<not> is_exception e"
  by (auto simp add: run_custom_query_def run_custom_query_try_def Let_def
      split: prod.splits sum.splits exn.splits if_splits)

lemma database_query_page_raises:
  assumes "fst (database_query_page svc q clicked w) = Inl e"
  shows "\<not> is_exception e"
proof -
  let ?w1 = "emit (StTitle (emoji_magnifier_left @ '' Database Query'')) w"
  obtain r w2 where a: "show_all_records svc ?w1 = (r, w2)"
    by (cases "show_all_records svc ?w1")
  show ?thesis
  proof (cases r)
    case (Inl e')
    with a assms have "e' = e" by (simp add: database_query_page_def Let_def)
    with a Inl show ?thesis using show_all_records_raises [of svc ?w1 e] by simp
  next
    case (Inr u)
    with a assms show ?thesis
      using run_custom_query_raises [of svc q _ e]
      by (auto simp add: database_query_page_def Let_def split: if_splits)
  qed
qed

text \<open>
  With an \<^verbatim>\<open>execute_custom_query\<close> that raises \<^verbatim>\<open>KeyboardInterrupt\<close>, the exception leaves
  the page and no error is shown for it.
\<close>

theorem custom_query_propagates_keyboard_interrupt:
  "run_custom_query
     (demo_services\<lparr>execute_custom_query := (\<lambda>q st. (Inl KeyboardInterrupt, st))\<rparr>)
     ''SELECT * FROM credit_cards'' demo_world
   = (Inl KeyboardInterrupt,
      \<lparr>ui = [], calls = [ExecuteCustomQuery ''SELECT * FROM credit_cards''],
       db = empty_store\<rparr>)
   \<and> \<not> (\<exists>w'. run_custom_query
                 (demo_services\<lparr>execute_custom_query := (\<lambda>q st. (Inl KeyboardInterrupt, st))\<rparr>)
                 ''SELECT * FROM credit_cards'' demo_world = (Inr (), w'))"
  by (simp add: run_custom_query_def run_custom_query_try_def Let_def demo_world_def
      record_call_def)

text \<open>
  Claim C10. The custom query never leaves the page by an exception of the \<^verbatim>\<open>Exception\<close>
  hierarchy. A \<^verbatim>\<open>ValueError\<close> of \<^verbatim>\<open>execute_custom_query\<close> is shown as a validation error,
  every other exception of the \<^verbatim>\<open>Exception\<close> hierarchy as an error executing the query,
  and an empty result as the information that no results were found, not as an error. An
  exception outside of the \<^verbatim>\<open>Exception\<close> hierarchy leaves the page.
\<close>

theorem custom_query_outcomes_classified:
  "(\<forall>e. fst (database_query_page svc q clicked w) = Inl e \<longrightarrow> \<not> is_exception e)
   \<and> (\<forall>e. fst (run_custom_query svc q w) = Inl e \<longrightarrow> \<not> is_exception e)
   \<and> (\<forall>m d. execute_custom_query svc q (db w) = (Inl (ValueError m), d) \<longrightarrow>
        run_custom_query svc q w =
          (Inr (),
           w\<lparr>ui := ui w @ [StError (emoji_cross_mark @ '' Validation error: '' @ m)],
             calls := calls w @ [ExecuteCustomQuery q], db := d\<rparr>))
   \<and> (\<forall>e d. execute_custom_query svc q (db w) = (Inl e, d) \<and> is_exception e
            \<and> (\<forall>m. e \<noteq> ValueError m) \<longrightarrow>
        run_custom_query svc q w =
          (Inr (),
           w\<lparr>ui := ui w @ [StError (emoji_cross_mark @ '' Error executing query: ''
                                     @ exn_str e)],
             calls := calls w @ [ExecuteCustomQuery q], db := d\<rparr>))
   \<and> (\<forall>e d. execute_custom_query svc q (db w) = (Inl e, d) \<and> \<not> is_exception e \<longrightarrow>
        run_custom_query svc q w =
          (Inl e, w\<lparr>calls := calls w @ [ExecuteCustomQuery q], db := d\<rparr>))
   \<and> (\<forall>d. execute_custom_query svc q (db w) = (Inr [], d) \<longrightarrow>
        run_custom_query svc q w =
          (Inr (),
           w\<lparr>ui := ui w @ [StInfo (emoji_magnifier_left @ '' No results found for the query.'')],
             calls := calls w @ [ExecuteCustomQuery q], db := d\<rparr>))"
proof (intro conjI allI impI)
  fix e
  assume "fst (database_query_page svc q clicked w) = Inl e"
  then show "\<not> is_exception e" by (rule database_query_page_raises)
next
  fix e
  assume "fst (run_custom_query svc q w) = Inl e"
  then show "\<not> is_exception e" by (rule run_custom_query_raises)
next
  fix m d
  assume "execute_custom_query svc q (db w) = (Inl (ValueError m), d)"
  then show "run_custom_query svc q w =
          (Inr (),
           w\<lparr>ui := ui w @ [StError (emoji_cross_mark @ '' Validation error: '' @ m)],
             calls := calls w @ [ExecuteCustomQuery q], db := d\<rparr>)"
    by (simp add: run_custom_query_def run_custom_query_try_def Let_def emit_def
        record_call_def)
next
  fix e d
  assume "execute_custom_query svc q (db w) = (Inl e, d) \<and> is_exception e
            \<and> (\<forall>m. e \<noteq> ValueError m)"
  then show "run_custom_query svc q w =
          (Inr (),
           w\<lparr>ui := ui w @ [StError (emoji_cross_mark @ '' Error executing query: ''
                                     @ exn_str e)],
             calls := calls w @ [ExecuteCustomQuery q], db := d\<rparr>)"
    by (cases e) (simp_all add: run_custom_query_def run_custom_query_try_def Let_def emit_def
        record_call_def)
next
  fix e d
  assume "execute_custom_query svc q (db w) = (Inl e, d) \<and> \<not> is_exception e"
  then show "run_custom_query svc q w =
          (Inl e, w\<lparr>calls := calls w @ [ExecuteCustomQuery q], db := d\<rparr>)"
    by (cases e) (simp_all add: run_custom_query_def run_custom_query_try_def Let_def emit_def
        record_call_def)
next
  fix d
  assume "execute_custom_query svc q (db w) = (Inr [], d)"
  then show "run_custom_query svc q w =
          (Inr (),
           w\<lparr>ui := ui w @ [StInfo (emoji_magnifier_left @ '' No results found for the query.'')],
             calls := calls w @ [ExecuteCustomQuery q], db := d\<rparr>)"
    by (simp add: run_custom_query_def run_custom_query_try_def Let_def emit_def
        record_call_def)
qed

theorem custom_query_outcomes_classified_witness:
  "run_custom_query demo_services ''DROP TABLE cards'' demo_world =
     (Inr (),
      \<lparr>ui = [StError (emoji_cross_mark @ '' Validation error: query rejected'')],
       calls = [ExecuteCustomQuery ''DROP TABLE cards''],
       db = empty_store\<rparr>)
   \<and> run_custom_query
       (demo_services\<lparr>execute_custom_query :=
          (\<lambda>q st. (Inl (OtherException ''no such column: x''), st))\<rparr>)
       ''SELECT x FROM credit_cards'' demo_world =
     (Inr (),
      \<lparr>ui = [StError (emoji_cross_mark @ '' Error executing query: no such column: x'')],
       calls = [ExecuteCustomQuery ''SELECT x FROM credit_cards''],
       db = empty_store\<rparr>)
   \<and> run_custom_query
       (demo_services\<lparr>execute_custom_query := (\<lambda>q st. (Inl (SystemExit ''bye''), st))\<rparr>)
       ''SELECT x FROM credit_cards'' demo_world =
     (Inl (SystemExit ''bye''),
      \<lparr>ui = [], calls = [ExecuteCustomQuery ''SELECT x FROM credit_cards''],
       db = empty_store\<rparr>)
   \<and> run_custom_query demo_services ''SELECT * FROM credit_cards'' demo_world =
     (Inr (),
      \<lparr>ui = [StInfo (emoji_magnifier_left @ '' No results found for the query.'')],
       calls = [ExecuteCustomQuery ''SELECT * FROM credit_cards''],
       db = empty_store\<lparr>executed := [''SELECT * FROM credit_cards'']\<rparr>\<rparr>)"
proof -
  let ?svc = "demo_services\<lparr>execute_custom_query :=
                (\<lambda>q st. (Inl (OtherException ''no such column: x''), st))\<rparr>"
  let ?svx = "demo_services\<lparr>execute_custom_query := (\<lambda>q st. (Inl (SystemExit ''bye''), st))\<rparr>"
  have c1: "check_query ''DROP TABLE cards'' = Some NotReadOnly" by code_simp
  have c2: "check_query ''SELECT * FROM credit_cards'' = None" by code_simp
  have e1: "execute_custom_query demo_services ''DROP TABLE cards'' (db demo_world)
              = (Inl (ValueError ''query rejected''), empty_store)"
    by (simp add: demo_services_def gateway_execute_custom_query_def execute_def c1
        demo_describe_def demo_world_def)
  have e2: "execute_custom_query ?svc ''SELECT x FROM credit_cards'' (db demo_world)
              = (Inl (OtherException ''no such column: x''), empty_store)
            \<and> is_exception (OtherException ''no such column: x'')
            \<and> (\<forall>m. OtherException ''no such column: x'' \<noteq> ValueError m)"
    by (simp add: demo_world_def)
  have e3: "execute_custom_query demo_services ''SELECT * FROM credit_cards'' (db demo_world)
              = (Inr [], empty_store\<lparr>executed := [''SELECT * FROM credit_cards'']\<rparr>)"
    by (simp add: demo_services_def gateway_execute_custom_query_def execute_def c2
        demo_engine_def demo_world_def empty_store_def)
  have e4: "execute_custom_query ?svx ''SELECT x FROM credit_cards'' (db demo_world)
              = (Inl (SystemExit ''bye''), empty_store)
            \<and> \<not> is_exception (SystemExit ''bye'')"
    by (simp add: demo_world_def)
  note t1 = custom_query_outcomes_classified [of demo_services "''DROP TABLE cards''" False
      demo_world, THEN conjunct2, THEN conjunct2, THEN conjunct1, rule_format, OF e1]
  note t2 = custom_query_outcomes_classified [of ?svc "''SELECT x FROM credit_cards''" False
      demo_world, THEN conjunct2, THEN conjunct2, THEN conjunct2, THEN conjunct1,
      rule_format, OF e2]
  note t4 = custom_query_outcomes_classified [of ?svx "''SELECT x FROM credit_cards''" False
      demo_world, THEN conjunct2, THEN conjunct2, THEN conjunct2, THEN conjunct2,
      THEN conjunct1, rule_format, OF e4]
  note t3 = custom_query_outcomes_classified [of demo_services "''SELECT * FROM credit_cards''"
      False demo_world, THEN conjunct2, THEN conjunct2, THEN conjunct2, THEN conjunct2,
      THEN conjunct2, rule_format, OF e3]
  show ?thesis
    by (simp add: t1 t2 t3 t4) (simp add: demo_world_def)
qed

section \<open>The Luhn checksum and the expiry rule of the validator\<close>

lemma demo_fields_valid:
  "validate \<lparr>month = 1, year = 2030\<rparr> demo_fields = \<lparr>is_valid = True, failures = []\<rparr>"
  by code_simp

lemma reduce_doubled_digit:
  "d \<le> 9 \<Longrightarrow> reduce_doubled d = (if 2 * d > 9 then 2 * d - 9 else 2 * d)"
proof -
  assume "d \<le> 9"
  then have "d \<in> {0, 1, 2, 3, 4, 5, 6, 7, 8, 9}" by auto
  then show ?thesis
    by (auto simp add: reduce_doubled_def Let_def)
qed

lemma luhn_loop_by_position:
  "\<forall>d \<in> set ds. d \<le> 9 \<Longrightarrow>
   luhn_loop dbl ds = (\<Sum>i < length ds. luhn_term (i + (if dbl then 1 else 0)) (ds ! i))"
proof (induction ds arbitrary: dbl)
  case Nil
  then show ?case by simp
next
  case (Cons d ds)
  have tail: "luhn_loop (\<not> dbl) ds
                = (\<Sum>i < length ds. luhn_term (i + (if \<not> dbl then 1 else 0)) (ds ! i))"
    using Cons.IH [of "\<not> dbl"] Cons.prems by simp
  have shift: "(\<Sum>i < length ds. luhn_term (i + (if \<not> dbl then 1 else 0)) (ds ! i))
                = (\<Sum>i < length ds. luhn_term (Suc i + (if dbl then 1 else 0)) ((d # ds) ! Suc i))"
    by (rule sum.cong) (simp_all add: luhn_term_def)
  have head: "(if dbl then reduce_doubled d else d)
                = luhn_term (0 + (if dbl then 1 else 0)) ((d # ds) ! 0)"
    using Cons.prems by (simp add: luhn_term_def reduce_doubled_digit)
  show ?case
    unfolding luhn_loop.simps tail shift head
    by (simp only: length_Cons sum.lessThan_Suc_shift)
qed

lemma digit_val_le_9: "is_digit c \<Longrightarrow> digit_val c \<le> 9"
  unfolding is_digit_def digit_val_def by linarith

lemma luhn_sum_by_position_eq:
  assumes "list_all is_digit number"
  shows "luhn_sum number = luhn_sum_by_position number"
proof -
  have small: "\<forall>d \<in> set (rev (map digit_val number)). d \<le> 9"
    using assms by (auto simp add: list_all_iff digit_val_le_9)
  have "luhn_sum number
          = (\<Sum>i < length number. luhn_term i (rev (map digit_val number) ! i))"
    unfolding luhn_sum_def luhn_loop_by_position [OF small] by simp
  also have "\<dots> = (\<Sum>i < length number.
                     luhn_term i (digit_val (number ! (length number - 1 - i))))"
    by (rule sum.cong) (simp_all add: rev_nth)
  finally show ?thesis by (simp add: luhn_sum_by_position_def)
qed

lemma checksum_failure_iff:
  "(''card_number'', ChecksumFailed) \<in> set (failures (validate now cand))
     \<longleftrightarrow> \<not> checksum_ok (card_number cand)"
  by (simp add: validate_def Let_def split: option.splits)

lemma known_vector_pass: "checksum_ok ''4532015112830366''"
  by code_simp

text \<open>
  Were the rightmost digit doubled (the flag of the walk starting at \<^verbatim>\<open>True\<close>), the known
  valid vector of the spec would fail.
\<close>

lemma known_vector_other_reading:
  "luhn_loop True (rev (map digit_val ''4532015112830366'')) mod 10 \<noteq> 0"
  by code_simp

lemma known_vector_fail: "\<not> checksum_ok ''4532015112830367''"
  by code_simp

text \<open>
  Claim C1. For a card number that is a string of digits, the validator reports no checksum
  failure exactly when the Luhn sum, taken position by position from the rightmost digit
  with every second digit doubled and 9 subtracted from a doubled digit over 9, is 0
  modulo 10. The checksum passes for "4532015112830366" and fails for "4532015112830367".
\<close>

theorem checksum_is_luhn:
  "(list_all is_digit (card_number cand) \<longrightarrow>
      ((''card_number'', ChecksumFailed) \<notin> set (failures (validate now cand))
         \<longleftrightarrow> luhn_sum_by_position (card_number cand) mod 10 = 0))
   \<and> (card_number cand = ''4532015112830366'' \<longrightarrow>
        (''card_number'', ChecksumFailed) \<notin> set (failures (validate now cand)))
   \<and> (card_number cand = ''4532015112830367'' \<longrightarrow>
        (''card_number'', ChecksumFailed) \<in> set (failures (validate now cand)))"
  using known_vector_pass known_vector_fail
  by (auto simp add: checksum_failure_iff checksum_ok_def luhn_sum_by_position_eq)

theorem checksum_is_luhn_witness:
  "list_all is_digit (card_number demo_fields)
   \<and> (''card_number'', ChecksumFailed)
        \<notin> set (failures (validate \<lparr>month = 1, year = 2030\<rparr> demo_fields))
   \<and> luhn_sum_by_position (card_number demo_fields) mod 10 = 0
   \<and> list_all is_digit (card_number (demo_fields\<lparr>card_number := ''4532015112830367''\<rparr>))
   \<and> (''card_number'', ChecksumFailed)
        \<in> set (failures (validate \<lparr>month = 1, year = 2030\<rparr>
                            (demo_fields\<lparr>card_number := ''4532015112830367''\<rparr>)))
   \<and> luhn_sum_by_position (card_number (demo_fields\<lparr>card_number := ''4532015112830367''\<rparr>))
        mod 10 \<noteq> 0"
proof -
  let ?now = "\<lparr>month = 1, year = 2030\<rparr>"
  let ?bad = "demo_fields\<lparr>card_number := ''4532015112830367''\<rparr>"
  have d1: "list_all is_digit (card_number demo_fields)"
    unfolding demo_fields_def by code_simp
  have d2: "list_all is_digit (card_number ?bad)"
    by code_simp
  have n1: "card_number demo_fields = ''4532015112830366''"
    by (simp add: demo_fields_def)
  have n2: "card_number ?bad = ''4532015112830367''"
    by simp
  note t1 = checksum_is_luhn [of demo_fields ?now]
  note t2 = checksum_is_luhn [of ?bad ?now]
  from t1 n1 have p: "(''card_number'', ChecksumFailed) \<notin> set (failures (validate ?now demo_fields))"
    by blast
  from t2 n2 have f: "(''card_number'', ChecksumFailed) \<in> set (failures (validate ?now ?bad))"
    by blast
  from t1 d1 p have s1: "luhn_sum_by_position (card_number demo_fields) mod 10 = 0"
    by blast
  from t2 d2 f have s2: "luhn_sum_by_position (card_number ?bad) mod 10 \<noteq> 0"
    by blast
  from d1 d2 p f s1 s2 show ?thesis by blast
qed

lemma expiry_failure_iff:
  "(''expiration'', ExpiryInPast) \<in> set (failures (validate now cand))
     \<longleftrightarrow> (\<exists>e. expiration cand = Some e \<and> \<not> expiry_not_past now e)"
  by (cases "expiration cand") (simp_all add: validate_def Let_def)

text \<open>
  Claim C5. The expiry rule compares the expiry with the injected current month and year:
  it fails exactly when the expiry lies before them. With now = 2030-01 the expiry 2029-12
  fails and 2030-01 passes; an expiry equal to the current month passes and the month
  before it fails, whatever the current month is.
\<close>

theorem expiry_compared_with_injected_now:
  "(\<forall>e. expiration cand = Some e \<longrightarrow>
        ((''expiration'', ExpiryInPast) \<in> set (failures (validate now cand))
           \<longleftrightarrow> (year e < year now \<or> (year e = year now \<and> month e < month now))))
   \<and> (expiration cand = Some \<lparr>month = 12, year = 2029\<rparr> \<longrightarrow>
        (''expiration'', ExpiryInPast)
          \<in> set (failures (validate \<lparr>month = 1, year = 2030\<rparr> cand)))
   \<and> (expiration cand = Some \<lparr>month = 1, year = 2030\<rparr> \<longrightarrow>
        (''expiration'', ExpiryInPast)
          \<notin> set (failures (validate \<lparr>month = 1, year = 2030\<rparr> cand)))
   \<and> (expiration cand = Some now \<longrightarrow>
        (''expiration'', ExpiryInPast) \<notin> set (failures (validate now cand)))
   \<and> (expiration cand = Some (previous_month now) \<longrightarrow>
        (''expiration'', ExpiryInPast) \<in> set (failures (validate now cand)))"
  by (auto simp add: expiry_failure_iff expiry_not_past_def previous_month_def)

theorem expiry_compared_with_injected_now_witness:
  "expiration (demo_fields\<lparr>expiration := Some \<lparr>month = 12, year = 2029\<rparr>\<rparr>)
     = Some \<lparr>month = 12, year = 2029\<rparr>
   \<and> (''expiration'', ExpiryInPast)
        \<in> set (failures (validate \<lparr>month = 1, year = 2030\<rparr>
                            (demo_fields\<lparr>expiration := Some \<lparr>month = 12, year = 2029\<rparr>\<rparr>)))
   \<and> (''expiration'', ExpiryInPast)
        \<notin> set (failures (validate \<lparr>month = 12, year = 2029\<rparr>
                            (demo_fields\<lparr>expiration := Some \<lparr>month = 12, year = 2029\<rparr>\<rparr>)))
   \<and> (''expiration'', ExpiryInPast)
        \<notin> set (failures (validate \<lparr>month = 1, year = 2030\<rparr> demo_fields))"
proof -
  let ?old = "demo_fields\<lparr>expiration := Some \<lparr>month = 12, year = 2029\<rparr>\<rparr>"
  have e1: "expiration ?old = Some \<lparr>month = 12, year = 2029\<rparr>" by simp
  have e2: "expiration demo_fields = Some \<lparr>month = 1, year = 2030\<rparr>"
    by (simp add: demo_fields_def)
  from expiry_compared_with_injected_now [of ?old "\<lparr>month = 1, year = 2030\<rparr>"] e1
  have a: "(''expiration'', ExpiryInPast)
             \<in> set (failures (validate \<lparr>month = 1, year = 2030\<rparr> ?old))"
    by blast
  from expiry_compared_with_injected_now [of ?old "\<lparr>month = 12, year = 2029\<rparr>"] e1
  have b: "(''expiration'', ExpiryInPast)
             \<notin> set (failures (validate \<lparr>month = 12, year = 2029\<rparr> ?old))"
    by blast
  from expiry_compared_with_injected_now [of demo_fields "\<lparr>month = 1, year = 2030\<rparr>"] e2
  have c: "(''expiration'', ExpiryInPast)
             \<notin> set (failures (validate \<lparr>month = 1, year = 2030\<rparr> demo_fields))"
    by blast
  from e1 a b c show ?thesis by blast
qed

section \<open>Normalization is idempotent\<close>

lemma split_words_are_words: "list_all is_word (split_words s)"
proof (induction s rule: split_words.induct)
  case 1
  then show ?case by simp
next
  case (2 c cs)
  then show ?case
    by (auto simp add: is_word_def split: list.splits)
qed

lemma split_words_word:
  assumes "is_word w" and "rest = [] \<or> is_space (hd rest)"
  shows "split_words (w @ rest) = w # split_words rest"
  using assms
proof (induction w)
  case Nil
  then show ?case by (simp add: is_word_def)
next
  case (Cons c w)
  show ?case
  proof (cases "w = []")
    case True
    with Cons.prems show ?thesis by (auto simp add: is_word_def)
  next
    case False
    with Cons.prems have w: "is_word w" and c: "\<not> is_space c"
      by (simp_all add: is_word_def)
    from False w have "\<not> is_space (hd (w @ rest))" "w @ rest \<noteq> []"
      by (cases w; simp add: is_word_def)+
    with c Cons.IH [OF w Cons.prems(2)] show ?thesis by simp
  qed
qed

lemma space_is_space: "is_space (CHR 0x20)"
  by (simp add: is_space_def)

lemma split_join_words: "list_all is_word ws \<Longrightarrow> split_words (join_words ws) = ws"
proof (induction ws rule: join_words.induct)
  case 1
  then show ?case by simp
next
  case (2 w)
  then show ?case using split_words_word [of w "[]"] by simp
next
  case (3 w v vs)
  from "3.prems" have w: "is_word w" and rest: "list_all is_word (v # vs)" by simp_all
  have "split_words (w @ CHR 0x20 # join_words (v # vs))
          = w # split_words (CHR 0x20 # join_words (v # vs))"
    by (rule split_words_word [OF w]) (simp add: space_is_space)
  also have "split_words (CHR 0x20 # join_words (v # vs)) = split_words (join_words (v # vs))"
    by (simp add: space_is_space)
  also have "\<dots> = v # vs" by (rule "3.IH" [OF rest])
  finally show ?case by simp
qed

lemma normalize_name_idem: "normalize_name (normalize_name y) = normalize_name y"
  by (simp add: normalize_name_def split_join_words split_words_are_words)

text \<open>
  Claim C7. Normalizing a normalized card number or a normalized name changes nothing.
\<close>

theorem normalization_idempotent:
  "normalize_card_number (normalize_card_number x) = normalize_card_number x
   \<and> normalize_name (normalize_name y) = normalize_name y"
  by (simp add: normalize_card_number_def normalize_name_idem)

theorem normalization_idempotent_witness:
  "normalize_card_number (normalize_card_number ''4532 0151-1283 0366'') = ''4532015112830366''
   \<and> normalize_name (normalize_name ''  GABRIEL   LIMA '') = ''GABRIEL LIMA''"
proof -
  note t = normalization_idempotent [of "''4532 0151-1283 0366''" "''  GABRIEL   LIMA ''"]
  have "normalize_card_number (normalize_card_number ''4532 0151-1283 0366'')
          = normalize_card_number ''4532 0151-1283 0366''"
    using t by (rule conjunct1)
  also have "\<dots> = ''4532015112830366''" by code_simp
  finally have a: "normalize_card_number (normalize_card_number ''4532 0151-1283 0366'')
                     = ''4532015112830366''" .
  have "normalize_name (normalize_name ''  GABRIEL   LIMA '')
          = normalize_name ''  GABRIEL   LIMA ''"
    using t by (rule conjunct2)
  also have "\<dots> = ''GABRIEL LIMA''" by code_simp
  finally have b: "normalize_name (normalize_name ''  GABRIEL   LIMA '') = ''GABRIEL LIMA''" .
  from a b show ?thesis by (rule conjI)
qed

section \<open>The Query Gateway rejects unsafe text\<close>








lemma check_select_all: "check_query ''SELECT * FROM cards'' = None"
  by code_simp

lemma select_all_is_executed:
  "execute run ''SELECT * FROM cards'' st =
     (case run ''SELECT * FROM cards'' (st\<lparr>executed := executed st @ [''SELECT * FROM cards'']\<rparr>) of
        (Inl msg, st') \<Rightarrow> (Inl (QueryExecutionError msg), st')
      | (Inr result, st') \<Rightarrow> (Inr result, st'))"
  by (simp add: execute_def check_select_all)



end
